theory Spec2Isabelle
  imports Main "HOL-Library.Word"
begin

section \<open>JavaScript strings\<close>

text \<open>
  A JavaScript string is a sequence of UTF-16 code units. The handlers of \<^verbatim>\<open>App.tsx\<close>
  use \<^verbatim>\<open>trim\<close>, \<^verbatim>\<open>indexOf\<close>, \<^verbatim>\<open>substring\<close>, \<^verbatim>\<open>split\<close> and
  \<^verbatim>\<open>pop\<close>; each is written out below with the behaviour ECMAScript gives it, also
  where an index is \<open>-1\<close> or a piece is missing.
\<close>

type_synonym jsstring = "16 word list"

definition str :: "string \<Rightarrow> jsstring" where
  "str cs = map of_char cs"

definition isWhiteSpace :: "16 word \<Rightarrow> bool" where
  \<comment> \<open>WhiteSpace and LineTerminator of ECMAScript: what \<^verbatim>\<open>trim\<close> strips.\<close>
  "isWhiteSpace c \<longleftrightarrow>
     c = 0x0009 \<or> c = 0x000A \<or> c = 0x000B \<or> c = 0x000C \<or> c = 0x000D \<or> c = 0x0020 \<or>
     c = 0x00A0 \<or> c = 0x1680 \<or> (0x2000 \<le> c \<and> c \<le> 0x200A) \<or> c = 0x2028 \<or>
     c = 0x2029 \<or> c = 0x202F \<or> c = 0x205F \<or> c = 0x3000 \<or> c = 0xFEFF"

definition trim :: "jsstring \<Rightarrow> jsstring" where
  "trim s = rev (dropWhile isWhiteSpace (rev (dropWhile isWhiteSpace s)))"

fun indexOf :: "jsstring \<Rightarrow> 16 word \<Rightarrow> int" where
  "indexOf [] c = - 1"
| "indexOf (x # xs) c =
     (if x = c then 0 else (let i = indexOf xs c in if i < 0 then - 1 else i + 1))"

definition substring :: "jsstring \<Rightarrow> int \<Rightarrow> int \<Rightarrow> jsstring" where
  \<comment> \<open>both indices are clamped to \<open>[0, length]\<close> and swapped when out of order\<close>
  "substring s start end' =
     (let len = int (length s);
          a = min (max start 0) len;
          b = min (max end' 0) len;
          lo = min a b;
          hi = max a b
      in take (nat (hi - lo)) (drop (nat lo) s))"

fun split_at :: "jsstring \<Rightarrow> 16 word \<Rightarrow> jsstring list" where
  \<comment> \<open>\<^verbatim>\<open>s.split(c)\<close> for a separator of one code unit; never the empty array\<close>
  "split_at [] c = [[]]"
| "split_at (x # xs) c =
     (if x = c then [] # split_at xs c
      else (case split_at xs c of [] \<Rightarrow> [[x]] | p # ps \<Rightarrow> (x # p) # ps))"

definition at_index :: "'a list \<Rightarrow> nat \<Rightarrow> 'a option" where
  \<comment> \<open>\<^verbatim>\<open>xs[i]\<close>: \<^verbatim>\<open>undefined\<close> (here \<open>None\<close>) out of range\<close>
  "at_index xs i = (if i < length xs then Some (xs ! i) else None)"

definition pop :: "'a list \<Rightarrow> 'a option" where
  \<comment> \<open>the value \<^verbatim>\<open>xs.pop()\<close> returns: the last element, \<^verbatim>\<open>undefined\<close> on the empty array\<close>
  "pop xs = (case rev xs of [] \<Rightarrow> None | x # _ \<Rightarrow> Some x)"

definition or_default :: "jsstring option \<Rightarrow> jsstring \<Rightarrow> jsstring" where
  \<comment> \<open>\<^verbatim>\<open>v || d\<close> on strings: \<^verbatim>\<open>undefined\<close> and the empty string are falsy\<close>
  "or_default v d = (case v of None \<Rightarrow> d | Some x \<Rightarrow> if x = [] then d else x)"

section \<open>Data\<close>

record blob =
  blob_type :: jsstring
  blob_data :: "8 word list"

record jsfile =
  file_name :: jsstring
  file_type :: jsstring
  file_data :: "8 word list"

text \<open>
  Modelled from the spec: the type \<^verbatim>\<open>EditImageResult\<close> is declared in \<^verbatim>\<open>./types\<close>, which
  is not among the sources. The spec gives an EditResult an output image reference and an
  optional narrative text; \<^verbatim>\<open>App.tsx\<close> reads them as \<^verbatim>\<open>imageUrl\<close> and \<^verbatim>\<open>text\<close>
  (here \<open>text_output\<close>), both possibly absent.
\<close>

record EditImageResult =
  imageUrl :: "jsstring option"
  text_output :: "jsstring option"

text \<open>
  An object URL minted by \<^verbatim>\<open>URL.createObjectURL\<close> is represented by its serial number.
\<close>

type_synonym objurl = nat

text \<open>The nine \<^verbatim>\<open>useState\<close> cells of the component \<^verbatim>\<open>App\<close>.\<close>

record app_state =
  originalImage :: "jsfile option"
  originalImagePreview :: "objurl option"
  prompt :: jsstring
  promptHistory :: "jsstring list"
  editedResult :: "EditImageResult option"
  isLoading :: bool
  error :: "jsstring option"
  isAdModalOpen :: bool
  imageToDownload :: "jsstring option"

definition initial_state :: app_state where
  "initial_state =
     \<lparr>originalImage = None, originalImagePreview = None, prompt = [], promptHistory = [],
      editedResult = None, isLoading = False, error = None, isAdModalOpen = False,
      imageToDownload = None\<rparr>"

text \<open>
  What the handlers do outside the component: the browser's store of object URLs (an
  entry stays until \<^verbatim>\<open>URL.revokeObjectURL\<close> removes it), the calls made to
  \<^verbatim>\<open>editImageWithGemini\<close> (base64 payload, media type, instruction) and the downloads
  triggered by clicking a link (its \<^verbatim>\<open>href\<close> and its \<^verbatim>\<open>download\<close> name).
\<close>

record browser =
  next_url :: objurl
  url_store :: "(objurl \<times> jsfile) list"
  serviceCalls :: "(jsstring option \<times> jsstring \<times> jsstring) list"
  downloads :: "(jsstring \<times> jsstring) list"

definition initial_browser :: browser where
  "initial_browser = \<lparr>next_url = 0, url_store = [], serviceCalls = [], downloads = []\<rparr>"

definition createObjectURL :: "jsfile \<Rightarrow> browser \<Rightarrow> objurl \<times> browser" where
  "createObjectURL f b =
     (next_url b, b\<lparr>next_url := Suc (next_url b), url_store := url_store b @ [(next_url b, f)]\<rparr>)"

definition live_urls :: "browser \<Rightarrow> objurl list" where
  "live_urls b = map fst (url_store b)"

section \<open>Handlers\<close>

definition handleImageUpload :: "jsfile \<Rightarrow> app_state \<times> browser \<Rightarrow> app_state \<times> browser" where
  "handleImageUpload f w =
     (case w of (s, b) \<Rightarrow>
        (case createObjectURL f b of (u, b') \<Rightarrow>
           (s\<lparr>originalImage := Some f, originalImagePreview := Some u,
              editedResult := None, error := None, prompt := []\<rparr>, b')))"

definition resetState :: "app_state \<Rightarrow> app_state" where
  "resetState s =
     s\<lparr>originalImage := None, originalImagePreview := None, editedResult := None,
       error := None, prompt := [], promptHistory := [], isLoading := False\<rparr>"

subsection \<open>The history ledger\<close>

definition addToHistory :: "jsstring \<Rightarrow> jsstring list \<Rightarrow> jsstring list" where
  \<comment> \<open>the updater given to \<^verbatim>\<open>setPromptHistory\<close>\<close>
  "addToHistory trimmedPrompt prevHistory =
     (let filteredHistory = filter (\<lambda>p. p \<noteq> trimmedPrompt) prevHistory
      in take 5 (trimmedPrompt # filteredHistory))"

subsection \<open>Submission\<close>

definition validation_message :: jsstring where
  "validation_message = str ''Please provide an image and a descriptive prompt.''"

definition unexpected_message :: jsstring where
  "unexpected_message = str ''An unexpected error occurred. Please try again.''"

text \<open>
  \<^verbatim>\<open>handleSubmit\<close> is asynchronous. Its synchronous part runs up to the first
  \<^verbatim>\<open>await\<close>; what it leaves in flight is the closure's \<^verbatim>\<open>originalImage\<close> and
  \<^verbatim>\<open>prompt\<close>.
\<close>

record submission =
  sub_image :: jsfile
  sub_prompt :: jsstring

definition handleSubmit :: "app_state \<Rightarrow> app_state \<times> submission option" where
  "handleSubmit s =
     (let trimmedPrompt = trim (prompt s) in
      case originalImage s of
        None \<Rightarrow> (s\<lparr>error := Some validation_message\<rparr>, None)
      | Some img \<Rightarrow>
          if trimmedPrompt = [] then (s\<lparr>error := Some validation_message\<rparr>, None)
          else (s\<lparr>isLoading := True, error := None, editedResult := None,
                  promptHistory := addToHistory trimmedPrompt (promptHistory s)\<rparr>,
                Some \<lparr>sub_image = img, sub_prompt = prompt s\<rparr>))"

text \<open>
  The first \<^verbatim>\<open>await\<close> is \<^verbatim>\<open>convertFileToBase64\<close>: the \<^verbatim>\<open>FileReader\<close> either loads
  a data URL or fires \<^verbatim>\<open>onerror\<close>, whose event is what the promise rejects with.
\<close>

datatype reader_outcome = Loaded jsstring | ReadFailed

definition convertFileToBase64 :: "reader_outcome \<Rightarrow> (jsstring option \<times> jsstring) option" where
  \<comment> \<open>\<open>Some (base64, mimeType)\<close> when the promise resolves, \<open>None\<close> when it rejects\<close>
  "convertFileToBase64 r =
     (case r of
        Loaded result \<Rightarrow>
          (let mimeType = substring result 5 (indexOf result (of_char CHR '';''));
               base64 = at_index (split_at result (of_char CHR '','')) 1
           in Some (base64, mimeType))
      | ReadFailed \<Rightarrow> None)"

text \<open>
  The second \<^verbatim>\<open>await\<close> is the call of the transformation service, which resolves with
  a result or rejects, with an \<^verbatim>\<open>Error\<close> carrying a message or with anything else.
\<close>

datatype service_outcome = Fulfilled EditImageResult | RejectedError jsstring | RejectedOther

definition handleSubmit_failed :: "jsstring option \<Rightarrow> app_state \<Rightarrow> app_state" where
  \<comment> \<open>\<^verbatim>\<open>catch\<close> then \<^verbatim>\<open>finally\<close>; the argument is \<^verbatim>\<open>err.message\<close> when
      \<^verbatim>\<open>err instanceof Error\<close>\<close>
  "handleSubmit_failed msg s =
     (case msg of
        Some m \<Rightarrow> s\<lparr>error := Some m, isLoading := False\<rparr>
      | None \<Rightarrow> s\<lparr>error := Some unexpected_message, isLoading := False\<rparr>)"

definition handleSubmit_encoded ::
  "submission \<Rightarrow> reader_outcome \<Rightarrow> app_state \<times> browser \<Rightarrow> (app_state \<times> browser) \<times> bool" where
  \<comment> \<open>resumes after the first \<^verbatim>\<open>await\<close>; the flag says whether the service was called\<close>
  "handleSubmit_encoded sub r w =
     (case w of (s, b) \<Rightarrow>
        (case convertFileToBase64 r of
           Some (base64, mimeType) \<Rightarrow>
             ((s, b\<lparr>serviceCalls := serviceCalls b @ [(base64, mimeType, sub_prompt sub)]\<rparr>), True)
         | None \<Rightarrow> ((handleSubmit_failed None s, b), False)))"

definition handleSubmit_settled :: "service_outcome \<Rightarrow> app_state \<Rightarrow> app_state" where
  \<comment> \<open>resumes after the second \<^verbatim>\<open>await\<close>\<close>
  "handleSubmit_settled out s =
     (case out of
        Fulfilled result \<Rightarrow> s\<lparr>editedResult := Some result, isLoading := False\<rparr>
      | RejectedError m \<Rightarrow> handleSubmit_failed (Some m) s
      | RejectedOther \<Rightarrow> handleSubmit_failed None s)"

text \<open>
  The form is rendered when there is a preview, and its submit button carries
  \<^verbatim>\<open>disabled={isLoading || !prompt.trim()}\<close>: a click reaches \<^verbatim>\<open>handleSubmit\<close> only
  through an enabled button.
\<close>

definition formRendered :: "app_state \<Rightarrow> bool" where
  "formRendered s \<longleftrightarrow> originalImagePreview s \<noteq> None"

definition submitDisabled :: "app_state \<Rightarrow> bool" where
  "submitDisabled s \<longleftrightarrow> isLoading s \<or> trim (prompt s) = []"

definition clickSubmit :: "app_state \<Rightarrow> app_state \<times> submission option" where
  "clickSubmit s = (if formRendered s \<and> \<not> submitDisabled s then handleSubmit s else (s, None))"

subsection \<open>Example images\<close>

definition example_message :: jsstring where
  "example_message =
     str ''Sorry, we couldn'' @ [of_char (CHR 0x27)] @
     str ''t load that example. Please try another or upload your own image.''"

text \<open>
  \<^verbatim>\<open>fetch\<close> rejects, or resolves with a response whose \<^verbatim>\<open>ok\<close> flag the handler tests
  and whose body \<^verbatim>\<open>response.blob()\<close> reads (\<open>None\<close>: the read rejects).
\<close>

datatype fetch_outcome = FetchRejected | Response bool "blob option"

definition handleExampleSelect_begin :: "app_state \<Rightarrow> app_state" where
  "handleExampleSelect_begin s = s\<lparr>error := None\<rparr>"

definition handleExampleSelect_fetched ::
  "jsstring \<Rightarrow> jsstring \<Rightarrow> fetch_outcome \<Rightarrow> app_state \<times> browser \<Rightarrow> app_state \<times> browser" where
  "handleExampleSelect_fetched url examplePrompt out w =
     (case w of (s, b) \<Rightarrow>
        (case out of
           FetchRejected \<Rightarrow> (s\<lparr>error := Some example_message\<rparr>, b)
         | Response ok body \<Rightarrow>
             if \<not> ok then (s\<lparr>error := Some example_message\<rparr>, b)
             else (case body of
                     None \<Rightarrow> (s\<lparr>error := Some example_message\<rparr>, b)
                   | Some bl \<Rightarrow>
                       (let filename = or_default (pop (split_at url (of_char CHR ''/'')))
                                         (str ''example.jpg'');
                            f = \<lparr>file_name = filename, file_type = blob_type bl,
                                 file_data = blob_data bl\<rparr>
                        in case handleImageUpload f (s, b) of
                             (s', b') \<Rightarrow> (s'\<lparr>prompt := examplePrompt\<rparr>, b')))))"

definition handleExampleSelect ::
  "jsstring \<Rightarrow> jsstring \<Rightarrow> fetch_outcome \<Rightarrow> app_state \<times> browser \<Rightarrow> app_state \<times> browser" where
  \<comment> \<open>the whole handler, when nothing else runs while the fetch is awaited\<close>
  "handleExampleSelect url examplePrompt out w =
     (case w of (s, b) \<Rightarrow>
        handleExampleSelect_fetched url examplePrompt out (handleExampleSelect_begin s, b))"

subsection \<open>The download gate\<close>

definition handleDownloadRequest :: "jsstring \<Rightarrow> app_state \<Rightarrow> app_state" where
  "handleDownloadRequest url s =
     (if url = [] then s else s\<lparr>imageToDownload := Some url, isAdModalOpen := True\<rparr>)"

definition startDownload :: "app_state \<times> browser \<Rightarrow> app_state \<times> browser" where
  "startDownload w =
     (case w of (s, b) \<Rightarrow>
        (case imageToDownload s of
           None \<Rightarrow> (s, b)
         | Some url \<Rightarrow>
             if url = [] then (s, b)
             else (let mimeType = substring url (indexOf url (of_char CHR '':'') + 1)
                                    (indexOf url (of_char CHR '';''));
                       extension = or_default (at_index (split_at mimeType (of_char CHR ''/'')) 1)
                                     (str ''png'');
                       name = str ''edited-image-by-banana-ai.'' @ extension
                   in (s\<lparr>imageToDownload := None\<rparr>, b\<lparr>downloads := downloads b @ [(url, name)]\<rparr>))))"

definition handleAdModalClose :: "app_state \<times> browser \<Rightarrow> app_state \<times> browser" where
  "handleAdModalClose w = (case w of (s, b) \<Rightarrow> startDownload (s\<lparr>isAdModalOpen := False\<rparr>, b))"

text \<open>
  The download button of the edited panel is rendered only for
  \<^verbatim>\<open>isEditedPanel && imageUrl && !isLoading && onDownload\<close>, with
  \<^verbatim>\<open>imageUrl = editedResult?.imageUrl\<close>, inside the branch that has a preview; a click
  passes that \<^verbatim>\<open>imageUrl\<close> to \<^verbatim>\<open>handleDownloadRequest\<close>.
\<close>

definition downloadUrl :: "app_state \<Rightarrow> jsstring option" where
  "downloadUrl s =
     (case editedResult s of
        None \<Rightarrow> None
      | Some r \<Rightarrow> (case imageUrl r of None \<Rightarrow> None | Some u \<Rightarrow> if u = [] then None else Some u))"

definition clickDownload :: "app_state \<Rightarrow> app_state" where
  "clickDownload s =
     (case downloadUrl s of
        None \<Rightarrow> s
      | Some u \<Rightarrow> if formRendered s \<and> \<not> isLoading s then handleDownloadRequest u s else s)"

section \<open>Runs\<close>

text \<open>
  Everything that can happen to the component: a handler is invoked, or an awaited
  promise settles and the rest of an asynchronous handler runs. The textarea, the
  example-prompt button and the history buttons all end in \<^verbatim>\<open>setPrompt\<close>. No order is
  imposed on the events, so every interleaving the browser can produce is a run.
\<close>

datatype event =
    ImageUpload jsfile
  | ExampleSelect
  | ExampleFetched jsstring jsstring fetch_outcome
  | Reset
  | SetPrompt jsstring
  | Submit
  | SubmitEncoded submission reader_outcome
  | SubmitSettled service_outcome
  | DownloadRequest jsstring
  | AdModalClose

fun fire :: "event \<Rightarrow> app_state \<times> browser \<Rightarrow> app_state \<times> browser" where
  "fire (ImageUpload f) w = handleImageUpload f w"
| "fire ExampleSelect w = (handleExampleSelect_begin (fst w), snd w)"
| "fire (ExampleFetched url p out) w = handleExampleSelect_fetched url p out w"
| "fire Reset w = (resetState (fst w), snd w)"
| "fire (SetPrompt p) w = ((fst w)\<lparr>prompt := p\<rparr>, snd w)"
| "fire Submit w = (fst (handleSubmit (fst w)), snd w)"
| "fire (SubmitEncoded sub r) w = fst (handleSubmit_encoded sub r w)"
| "fire (SubmitSettled out) w = (handleSubmit_settled out (fst w), snd w)"
| "fire (DownloadRequest url) w = (handleDownloadRequest url (fst w), snd w)"
| "fire AdModalClose w = handleAdModalClose w"

definition run :: "event list \<Rightarrow> app_state \<times> browser \<Rightarrow> app_state \<times> browser" where
  "run evs w = foldl (\<lambda>w e. fire e w) w evs"

section \<open>Invariants and sample data\<close>

text \<open>The ledger's invariant: at most five entries, no two of them equal.\<close>

definition ledger_ok :: "jsstring list \<Rightarrow> bool" where
  "ledger_ok h \<longleftrightarrow> length h \<le> 5 \<and> distinct h"

text \<open>
  No object URL has left the store: the live ones are all that were ever minted.
\<close>

definition urls_intact :: "browser \<Rightarrow> bool" where
  "urls_intact b \<longleftrightarrow> live_urls b = [0 ..< next_url b]"

text \<open>Concrete inputs for the scenarios evaluated below.\<close>

definition sample_image :: jsfile where
  "sample_image = \<lparr>file_name = str ''cat.png'', file_type = str ''image/png'', file_data = [137, 80, 78, 71]\<rparr>"

definition other_image :: jsfile where
  "other_image = \<lparr>file_name = str ''dog.jpg'', file_type = str ''image/jpeg'', file_data = [255, 216]\<rparr>"

definition sample_result :: EditImageResult where
  "sample_result = \<lparr>imageUrl = Some (str ''data:image/png;base64,QUJD''), text_output = None\<rparr>"

definition other_result :: EditImageResult where
  "other_result = \<lparr>imageUrl = Some (str ''data:image/jpeg;base64,REVG''), text_output = Some (str ''done'')\<rparr>"

definition ready_state :: app_state where
  \<comment> \<open>the state after \<open>sample_image\<close> is uploaded into the initial state\<close>
  "ready_state = initial_state\<lparr>originalImage := Some sample_image, originalImagePreview := Some 0\<rparr>"

lemmas eval_defs = initial_state_def initial_browser_def ready_state_def sample_image_def other_image_def
  sample_result_def other_result_def handleSubmit_def handleImageUpload_def createObjectURL_def
  resetState_def addToHistory_def trim_def isWhiteSpace_def  handleSubmit_settled_def handleSubmit_failed_def
  handleSubmit_encoded_def convertFileToBase64_def substring_def at_index_def or_default_def pop_def
  clickSubmit_def formRendered_def submitDisabled_def handleDownloadRequest_def startDownload_def
  handleAdModalClose_def downloadUrl_def clickDownload_def run_def live_urls_def str_def
  handleExampleSelect_def handleExampleSelect_begin_def handleExampleSelect_fetched_def Let_def

section \<open>The history ledger: bounded, duplicate-free, most recent first\<close>

lemma addToHistory_length: "length (addToHistory x h) \<le> 5"
  by (simp add: addToHistory_def)

lemma addToHistory_distinct: "distinct h \<Longrightarrow> distinct (addToHistory x h)"
  unfolding addToHistory_def Let_def
  by (rule distinct_take) simp

lemma addToHistory_head: "addToHistory x h = x # take 4 (filter (\<lambda>p. p \<noteq> x) h)"
  by (simp add: addToHistory_def)

lemma addToHistory_fresh:
  assumes "x \<notin> set h" and "length h = 5"
  shows "addToHistory x h = x # butlast h"
proof -
  have "filter (\<lambda>p. p \<noteq> x) h = h"
    using assms(1) by (auto simp: filter_id_conv)
  moreover have "take 4 h = butlast h"
    using assms(2) by (simp add: butlast_conv_take)
  ultimately show ?thesis
    by (simp add: addToHistory_head)
qed

lemma handleSubmit_history:
  "promptHistory (fst (handleSubmit s)) =
     (if originalImage s = None \<or> trim (prompt s) = [] then promptHistory s
      else addToHistory (trim (prompt s)) (promptHistory s))"
  by (simp add: handleSubmit_def Let_def split: option.splits)

lemma ledger_ok_addToHistory: "ledger_ok h \<Longrightarrow> ledger_ok (addToHistory x h)"
  by (simp add: ledger_ok_def addToHistory_length addToHistory_distinct)

lemma handleImageUpload_history:
  "promptHistory (fst (handleImageUpload f w)) = promptHistory (fst w)"
  by (cases w) (simp add: handleImageUpload_def createObjectURL_def)

lemma handleImageUpload_history_pair:
  "handleImageUpload f (s, b) = (s', b') \<Longrightarrow> promptHistory s' = promptHistory s"
  using handleImageUpload_history [of f "(s, b)"] by simp

lemma handleExampleSelect_fetched_history:
  "promptHistory (fst (handleExampleSelect_fetched url p out w)) = promptHistory (fst w)"
proof (cases w)
  case (Pair s b)
  then show ?thesis
    by (auto simp: handleExampleSelect_fetched_def Let_def
             split: fetch_outcome.splits option.splits prod.splits
             dest: handleImageUpload_history_pair)
qed

lemma handleSubmit_encoded_history:
  "promptHistory (fst (fst (handleSubmit_encoded sub r w))) = promptHistory (fst w)"
  by (cases w)
     (simp add: handleSubmit_encoded_def handleSubmit_failed_def split: option.splits prod.splits)

lemma handleSubmit_settled_history:
  "promptHistory (handleSubmit_settled out s) = promptHistory s"
  by (simp add: handleSubmit_settled_def handleSubmit_failed_def split: service_outcome.splits)

lemma startDownload_history: "promptHistory (fst (startDownload w)) = promptHistory (fst w)"
  by (cases w) (simp add: startDownload_def Let_def split: option.splits)

lemma fire_ledger_ok:
  assumes "ledger_ok (promptHistory (fst w))"
  shows "ledger_ok (promptHistory (fst (fire e w)))"
proof (cases e)
  case (ImageUpload f)
  then show ?thesis using assms by (simp add: handleImageUpload_history)
next
  case ExampleSelect
  then show ?thesis using assms by (simp add: handleExampleSelect_begin_def)
next
  case (ExampleFetched url p out)
  then show ?thesis using assms by (simp add: handleExampleSelect_fetched_history)
next
  case Reset
  then show ?thesis by (simp add: resetState_def ledger_ok_def)
next
  case (SetPrompt p)
  then show ?thesis using assms by simp
next
  case Submit
  then show ?thesis using assms by (simp add: handleSubmit_history ledger_ok_addToHistory)
next
  case (SubmitEncoded sub r)
  then show ?thesis using assms by (simp add: handleSubmit_encoded_history)
next
  case (SubmitSettled out)
  then show ?thesis using assms by (simp add: handleSubmit_settled_history)
next
  case (DownloadRequest url)
  then show ?thesis using assms by (simp add: handleDownloadRequest_def)
next
  case AdModalClose
  obtain s b where w: "w = (s, b)" by (cases w)
  show ?thesis
    using assms AdModalClose startDownload_history [of "(s\<lparr>isAdModalOpen := False\<rparr>, b)"]
    by (simp add: w handleAdModalClose_def)
qed

lemma run_ledger_ok:
  "ledger_ok (promptHistory (fst w)) \<Longrightarrow> ledger_ok (promptHistory (fst (run evs w)))"
  unfolding run_def
  by (induction evs arbitrary: w) (simp_all add: fire_ledger_ok)

lemma count_list_take_fresh: "x \<notin> set xs \<Longrightarrow> count_list (take n xs) x = 0"
  by (meson count_list_0_iff in_set_takeD)

section \<open>Object URLs are never revoked\<close>

lemma handleImageUpload_urls:
  "handleImageUpload f (s, b) = (s', b') \<Longrightarrow>
     next_url b' = Suc (next_url b) \<and> live_urls b' = live_urls b @ [next_url b]"
  by (auto simp: handleImageUpload_def createObjectURL_def live_urls_def)

lemma handleImageUpload_intact: "urls_intact (snd w) \<Longrightarrow> urls_intact (snd (handleImageUpload f w))"
proof -
  assume a: "urls_intact (snd w)"
  obtain s b where w: "w = (s, b)" by (cases w)
  obtain s' b' where u: "handleImageUpload f (s, b) = (s', b')" by (cases "handleImageUpload f (s, b)")
  show ?thesis
    using a handleImageUpload_urls [OF u] by (simp add: w u urls_intact_def)
qed

lemma handleExampleSelect_fetched_intact:
  "urls_intact (snd w) \<Longrightarrow> urls_intact (snd (handleExampleSelect_fetched url p out w))"
proof -
  assume a: "urls_intact (snd w)"
  obtain s b where w: "w = (s, b)" by (cases w)
  have "urls_intact (snd (handleImageUpload f (s, b)))" for f
    using a handleImageUpload_intact [of "(s, b)" f] by (simp add: w)
  then have "handleImageUpload f (s, b) = (s', b') \<Longrightarrow> urls_intact b'" for f s' b'
    by (metis snd_conv)
  then show ?thesis
    using a
    by (auto simp: w handleExampleSelect_fetched_def Let_def
             split: fetch_outcome.splits option.splits prod.splits)
qed

lemma handleSubmit_encoded_intact:
  "urls_intact (snd w) \<Longrightarrow> urls_intact (snd (fst (handleSubmit_encoded sub r w)))"
  by (cases w)
     (simp add: handleSubmit_encoded_def urls_intact_def live_urls_def split: option.splits prod.splits)

lemma startDownload_intact: "urls_intact (snd w) \<Longrightarrow> urls_intact (snd (startDownload w))"
  by (cases w) (simp add: startDownload_def Let_def urls_intact_def live_urls_def split: option.splits)

lemma fire_intact: "urls_intact (snd w) \<Longrightarrow> urls_intact (snd (fire e w))"
proof (cases e)
  case AdModalClose
  assume a: "urls_intact (snd w)"
  obtain s b where w: "w = (s, b)" by (cases w)
  show ?thesis
    using a AdModalClose startDownload_intact [of "(s\<lparr>isAdModalOpen := False\<rparr>, b)"]
    by (simp add: w handleAdModalClose_def)
qed (simp_all add: handleImageUpload_intact handleExampleSelect_fetched_intact
       handleSubmit_encoded_intact)

lemma run_intact: "urls_intact (snd w) \<Longrightarrow> urls_intact (snd (run evs w))"
  unfolding run_def
  by (induction evs arbitrary: w) (simp_all add: fire_intact)

lemma ready_state_reached:
  "fst (handleImageUpload sample_image (initial_state, initial_browser)) = ready_state"
  by (simp add: eval_defs)

section \<open>The claims\<close>

text \<open>
  C1. The spec asks that, after a full reset during a submission, the completion of that
  submission be discarded. \<^verbatim>\<open>handleSubmit\<close> holds no token of the submission it belongs
  to and \<^verbatim>\<open>resetState\<close> cancels nothing, so the rest of the handler runs on the reset
  state as on any other: a success stores its result as the current result, a failure
  (of the service or of the read of the file) stores its message as the error, and the
  loading flag is set to false, which it already is. Asset, preview, prompt and ledger
  stay cleared.
\<close>

theorem completion_after_reset_applied:
  assumes "handleSubmit s = (s1, Some sub)"
  shows "isLoading s1
     \<and> handleSubmit_settled (Fulfilled r) (resetState s1) = (resetState s1)\<lparr>editedResult := Some r\<rparr>
     \<and> handleSubmit_settled (RejectedError m) (resetState s1) = (resetState s1)\<lparr>error := Some m\<rparr>
     \<and> handleSubmit_settled RejectedOther (resetState s1)
         = (resetState s1)\<lparr>error := Some unexpected_message\<rparr>
     \<and> handleSubmit_encoded sub ReadFailed (resetState s1, b)
         = (((resetState s1)\<lparr>error := Some unexpected_message\<rparr>, b), False)"
proof -
  have "isLoading s1"
    using assms by (auto simp: handleSubmit_def Let_def split: option.splits if_splits)
  then show ?thesis
    by (simp add: handleSubmit_settled_def handleSubmit_failed_def handleSubmit_encoded_def
          convertFileToBase64_def resetState_def)
qed

theorem completion_after_reset_applied_witness:
  "handleSubmit (ready_state\<lparr>prompt := [97]\<rparr>)
     = (ready_state\<lparr>prompt := [97], isLoading := True, promptHistory := [[97]]\<rparr>,
        Some \<lparr>sub_image = sample_image, sub_prompt = [97]\<rparr>)
   \<and> handleSubmit_settled (Fulfilled sample_result)
        (resetState (ready_state\<lparr>prompt := [97], isLoading := True, promptHistory := [[97]]\<rparr>))
      = initial_state\<lparr>editedResult := Some sample_result\<rparr>"
  using completion_after_reset_applied [of "ready_state\<lparr>prompt := [97]\<rparr>"
     "ready_state\<lparr>prompt := [97], isLoading := True, promptHistory := [[97]]\<rparr>"
     "\<lparr>sub_image = sample_image, sub_prompt = [97]\<rparr>" sample_result]
  by (simp add: eval_defs)

text \<open>
  The discard fails on a concrete run: a submission starts, the state is reset, and the
  late success puts a result into the idle state; a late failure puts an error there.
\<close>

theorem stale_completion_counterexample:
  "snd (handleSubmit (ready_state\<lparr>prompt := [97]\<rparr>))
     = Some \<lparr>sub_image = sample_image, sub_prompt = [97]\<rparr>
   \<and> isLoading (fst (handleSubmit (ready_state\<lparr>prompt := [97]\<rparr>)))
   \<and> editedResult (resetState (fst (handleSubmit (ready_state\<lparr>prompt := [97]\<rparr>)))) = None
   \<and> editedResult (handleSubmit_settled (Fulfilled sample_result)
        (resetState (fst (handleSubmit (ready_state\<lparr>prompt := [97]\<rparr>))))) = Some sample_result
   \<and> error (handleSubmit_settled (RejectedError [120])
        (resetState (fst (handleSubmit (ready_state\<lparr>prompt := [97]\<rparr>))))) = Some [120]"
  by (simp add: eval_defs)



text \<open>
  The rejection is the button's: \<^verbatim>\<open>handleSubmit\<close> itself never reads \<^verbatim>\<open>isLoading\<close>.
\<close>

lemma handleSubmit_has_no_loading_guard:
  "originalImage s = Some img \<Longrightarrow> trim (prompt s) \<noteq> [] \<Longrightarrow>
   snd (handleSubmit s) = Some \<lparr>sub_image = img, sub_prompt = prompt s\<rparr>"
  by (simp add: handleSubmit_def Let_def)

text \<open>
  C3. The spec asks that each ingest release the preview reference of the asset it
  replaces. \<^verbatim>\<open>App.tsx\<close> never calls \<^verbatim>\<open>URL.revokeObjectURL\<close>. What holds after any run
  from the initial state, whatever handlers and resets it contains: an ingest makes its
  file the one current asset, with a reference minted for it, and every reference minted
  so far is still live, none released.
\<close>

theorem ingest_one_asset_previews_kept:
  "case run evs (initial_state, initial_browser) of (s, b) \<Rightarrow>
     (case handleImageUpload f (s, b) of (s', b') \<Rightarrow>
        originalImage s' = Some f \<and> originalImagePreview s' = Some (next_url b) \<and>
        live_urls b = [0 ..< next_url b] \<and> live_urls b' = [0 ..< Suc (next_url b)])"
proof -
  obtain s b where r: "run evs (initial_state, initial_browser) = (s, b)"
    by (cases "run evs (initial_state, initial_browser)")
  obtain s' b' where u: "handleImageUpload f (s, b) = (s', b')"
    by (cases "handleImageUpload f (s, b)")
  have "urls_intact (snd (initial_state, initial_browser))"
    by (simp add: urls_intact_def live_urls_def initial_browser_def)
  then have "urls_intact (snd (run evs (initial_state, initial_browser)))"
    by (rule run_intact)
  then have b: "live_urls b = [0 ..< next_url b]"
    by (simp add: r urls_intact_def)
  have "originalImage s' = Some f \<and> originalImagePreview s' = Some (next_url b)"
    using u by (auto simp: handleImageUpload_def createObjectURL_def)
  moreover have "live_urls b' = [0 ..< Suc (next_url b)]"
    using handleImageUpload_urls [OF u] b by simp
  ultimately show ?thesis
    using b by (simp add: r u)
qed

text \<open>
  Two ingests leave both references live, the first one leaked; a reset releases nothing.
\<close>

theorem ingest_releases_previews_counterexample:
  "originalImagePreview (fst (run [ImageUpload sample_image] (initial_state, initial_browser))) = Some 0
   \<and> originalImagePreview (fst (run [ImageUpload sample_image, ImageUpload other_image]
         (initial_state, initial_browser))) = Some 1
   \<and> live_urls (snd (run [ImageUpload sample_image, ImageUpload other_image]
         (initial_state, initial_browser))) = [0, 1]
   \<and> live_urls (snd (run [ImageUpload sample_image, Reset] (initial_state, initial_browser))) = [0]"
  by (simp add: eval_defs)

text \<open>
  C4. Recording happens inside \<^verbatim>\<open>handleSubmit\<close>, for a state that has an image. The
  prompt is trimmed; an empty trimmed value leaves the ledger as it is; otherwise equal
  entries are removed, the trimmed value is put in front and the ledger is cut to five.
  Recording the same trimmed value twice in a row leaves it at position 0 and nowhere else.
\<close>

theorem ledger_record:
  assumes "originalImage s = Some img"
  shows "promptHistory (fst (handleSubmit (s\<lparr>prompt := x\<rparr>))) =
           (if trim x = [] then promptHistory s
            else take 5 (trim x # filter (\<lambda>p. p \<noteq> trim x) (promptHistory s)))
         \<and> (trim x \<noteq> [] \<and> trim y = trim x \<longrightarrow>
              (let s1 = fst (handleSubmit (s\<lparr>prompt := x\<rparr>));
                   h2 = promptHistory (fst (handleSubmit (s1\<lparr>prompt := y\<rparr>)))
               in h2 ! 0 = trim x \<and> count_list h2 (trim x) = 1))"
proof -
  let ?t = "trim x"
  have first: "promptHistory (fst (handleSubmit (s\<lparr>prompt := x\<rparr>))) =
           (if ?t = [] then promptHistory s
            else take 5 (?t # filter (\<lambda>p. p \<noteq> ?t) (promptHistory s)))"
    using assms by (simp add: handleSubmit_history addToHistory_def)
  have second: "(let s1 = fst (handleSubmit (s\<lparr>prompt := x\<rparr>));
                   h2 = promptHistory (fst (handleSubmit (s1\<lparr>prompt := y\<rparr>)))
               in h2 ! 0 = ?t \<and> count_list h2 ?t = 1)"
    if t: "?t \<noteq> []" and y: "trim y = ?t"
  proof -
    define s1 where "s1 = fst (handleSubmit (s\<lparr>prompt := x\<rparr>))"
    have img1: "originalImage s1 = Some img"
      using assms t by (simp add: s1_def handleSubmit_def Let_def)
    have "promptHistory (fst (handleSubmit (s1\<lparr>prompt := y\<rparr>))) =
            ?t # take 4 (filter (\<lambda>p. p \<noteq> ?t) (promptHistory s1))"
      using img1 t y by (simp add: handleSubmit_history addToHistory_head)
    moreover have "count_list (take 4 (filter (\<lambda>p. p \<noteq> ?t) (promptHistory s1))) ?t = 0"
      by (rule count_list_take_fresh) simp
    ultimately show ?thesis
      by (simp add: s1_def Let_def)
  qed
  show ?thesis using first second by blast
qed

theorem ledger_record_witness:
  "originalImage (ready_state\<lparr>promptHistory := [[98], [97], [99]]\<rparr>) = Some sample_image
   \<and> trim [32, 97, 32] = [97] \<and> trim [97, 10] = [97]
   \<and> promptHistory (fst (handleSubmit
        (ready_state\<lparr>promptHistory := [[98], [97], [99]], prompt := [32, 97, 32]\<rparr>)))
      = [[97], [98], [99]]
   \<and> promptHistory (fst (handleSubmit
        ((fst (handleSubmit
           (ready_state\<lparr>promptHistory := [[98], [97], [99]], prompt := [32, 97, 32]\<rparr>)))
         \<lparr>prompt := [97, 10]\<rparr>)))
      = [[97], [98], [99]]
   \<and> promptHistory (fst (handleSubmit
        (ready_state\<lparr>promptHistory := [[98], [97], [99]], prompt := [32, 9]\<rparr>)))
      = [[98], [97], [99]]"
  using ledger_record [where s = "ready_state\<lparr>promptHistory := [[98], [97], [99]]\<rparr>"
      and img = sample_image and x = "[32, 97, 32]" and y = "[97, 10]"]
  by (simp add: eval_defs)

text \<open>
  C5. In every run from the initial state the ledger has at most five entries, all
  different. When it is full and a value not in it is recorded, the last entry, the one
  recorded longest ago, is dropped and the others move down by one.
\<close>

theorem ledger_bounded:
  "(length (promptHistory (fst (run evs (initial_state, initial_browser)))) \<le> 5
      \<and> distinct (promptHistory (fst (run evs (initial_state, initial_browser)))))
   \<and> (originalImage s = Some img \<and> trim (prompt s) \<noteq> []
        \<and> trim (prompt s) \<notin> set (promptHistory s) \<and> length (promptHistory s) = 5
      \<longrightarrow> promptHistory (fst (handleSubmit s)) = trim (prompt s) # butlast (promptHistory s))"
proof -
  have "ledger_ok (promptHistory (fst (initial_state, initial_browser)))"
    by (simp add: ledger_ok_def initial_state_def)
  then have "ledger_ok (promptHistory (fst (run evs (initial_state, initial_browser))))"
    by (rule run_ledger_ok)
  then show ?thesis
    by (simp add: ledger_ok_def handleSubmit_history addToHistory_fresh)
qed

theorem ledger_bounded_witness:
  "promptHistory (fst (run [ImageUpload sample_image, SetPrompt [97], Submit, SetPrompt [98], Submit,
       SetPrompt [99], Submit, SetPrompt [100], Submit, SetPrompt [101], Submit]
       (initial_state, initial_browser))) = [[101], [100], [99], [98], [97]]
   \<and> promptHistory (fst (handleSubmit
        (ready_state\<lparr>promptHistory := [[101], [100], [99], [98], [97]], prompt := [32, 102]\<rparr>)))
      = [[102], [101], [100], [99], [98]]"
  using ledger_bounded [of "[ImageUpload sample_image, SetPrompt [97], Submit, SetPrompt [98], Submit,
       SetPrompt [99], Submit, SetPrompt [100], Submit, SetPrompt [101], Submit]"
       "ready_state\<lparr>promptHistory := [[101], [100], [99], [98], [97]], prompt := [32, 102]\<rparr>" sample_image]
  by (simp add: eval_defs)

text \<open>
  C6. A prompt that trims to the empty string makes \<^verbatim>\<open>handleSubmit\<close> return at once:
  the validation message is set and nothing else changes (asset, result, loading flag and
  ledger are as before) and nothing is in flight.
\<close>

theorem submit_blank_rejected:
  "trim (prompt s) = [] \<Longrightarrow> handleSubmit s = (s\<lparr>error := Some validation_message\<rparr>, None)"
  by (simp add: handleSubmit_def Let_def split: option.splits)

theorem submit_blank_rejected_witness:
  "trim [32, 9, 10] = [] \<and>
   handleSubmit (ready_state\<lparr>prompt := [32, 9, 10]\<rparr>)
     = (ready_state\<lparr>prompt := [32, 9, 10], error := Some validation_message\<rparr>, None)"
  using submit_blank_rejected [of "ready_state\<lparr>prompt := [32, 9, 10]\<rparr>"]
  by (simp add: trim_def isWhiteSpace_def)

text \<open>
  C7. The spec asks that a release request be refused when there is no result or when a
  download is already pending. \<^verbatim>\<open>handleDownloadRequest\<close> tests only that its argument
  is not empty: an empty reference changes nothing; any other is stored as the pending
  download and opens the gate, whatever the state holds, replacing a pending one. What
  keeps a request from being made without a result is the rendering: the download
  button exists only for a current result, and not while loading.
\<close>

theorem release_request_behaviour:
  "handleDownloadRequest [] s = s
   \<and> (url \<noteq> [] \<longrightarrow>
        imageToDownload (handleDownloadRequest url s) = Some url
        \<and> isAdModalOpen (handleDownloadRequest url s))
   \<and> (editedResult s = None \<or> isLoading s \<longrightarrow> clickDownload s = s)"
  by (auto simp: handleDownloadRequest_def clickDownload_def downloadUrl_def split: option.splits)

theorem release_request_behaviour_witness:
  "imageToDownload (handleDownloadRequest [98] (initial_state\<lparr>imageToDownload := Some [97]\<rparr>)) = Some [98]
   \<and> clickDownload (initial_state\<lparr>imageToDownload := Some [97]\<rparr>)
       = initial_state\<lparr>imageToDownload := Some [97]\<rparr>"
  using release_request_behaviour [of "initial_state\<lparr>imageToDownload := Some [97]\<rparr>" "[98]"]
  by (simp add: initial_state_def)

text \<open>
  The handler stores a reference though no result is present and replaces a pending one;
  the button too replaces a pending reference once the current result has changed.
\<close>

theorem release_without_result_counterexample:
  "editedResult initial_state = None \<and> imageToDownload initial_state = None
   \<and> handleDownloadRequest [97] initial_state
       = initial_state\<lparr>imageToDownload := Some [97], isAdModalOpen := True\<rparr>
   \<and> imageToDownload (handleDownloadRequest [98] (handleDownloadRequest [97] initial_state))
       = Some [98]
   \<and> clickDownload (ready_state\<lparr>editedResult := Some other_result,
         imageToDownload := imageUrl sample_result, isAdModalOpen := True\<rparr>)
       = ready_state\<lparr>editedResult := Some other_result,
           imageToDownload := imageUrl other_result, isAdModalOpen := True\<rparr>"
  by (simp add: eval_defs)

text \<open>
  C8. The spec takes the instruction of a submission to be the trimmed text.
  \<^verbatim>\<open>handleSubmit\<close> validates and records \<^verbatim>\<open>trimmedPrompt\<close> but passes \<^verbatim>\<open>prompt\<close> to
  \<^verbatim>\<open>editImageWithGemini\<close>: the service receives the text as it was entered, whose
  trimmed form is not empty and is the value recorded at the head of the ledger.
\<close>

theorem service_receives_prompt_as_typed:
  assumes "handleSubmit s = (s1, Some sub)"
  shows "sub_prompt sub = prompt s \<and> trim (prompt s) \<noteq> []
     \<and> promptHistory s1 ! 0 = trim (prompt s)
     \<and> (case handleSubmit_encoded sub (Loaded d) (s', b) of
          (w, called) \<Rightarrow> called \<and> fst w = s'
            \<and> map (\<lambda>c. snd (snd c)) (serviceCalls (snd w))
                = map (\<lambda>c. snd (snd c)) (serviceCalls b) @ [prompt s])"
proof -
  have "sub_prompt sub = prompt s \<and> trim (prompt s) \<noteq> []
          \<and> promptHistory s1 = addToHistory (trim (prompt s)) (promptHistory s)"
    using assms by (auto simp: handleSubmit_def Let_def split: option.splits if_splits)
  then show ?thesis
    by (simp add: addToHistory_head handleSubmit_encoded_def convertFileToBase64_def Let_def)
qed

theorem service_receives_prompt_as_typed_witness:
  "handleSubmit (ready_state\<lparr>prompt := [32, 97, 32]\<rparr>)
     = (ready_state\<lparr>prompt := [32, 97, 32], isLoading := True, promptHistory := [[97]]\<rparr>,
        Some \<lparr>sub_image = sample_image, sub_prompt = [32, 97, 32]\<rparr>)
   \<and> map (\<lambda>c. snd (snd c)) (serviceCalls (snd (fst
        (handleSubmit_encoded \<lparr>sub_image = sample_image, sub_prompt = [32, 97, 32]\<rparr>
           (Loaded (str ''data:image/png;base64,iVBORw=='')) (ready_state, initial_browser)))))
      = [[32, 97, 32]]"
  using service_receives_prompt_as_typed [where s = "ready_state\<lparr>prompt := [32, 97, 32]\<rparr>"
     and ?s1.0 = "ready_state\<lparr>prompt := [32, 97, 32], isLoading := True, promptHistory := [[97]]\<rparr>"
     and sub = "\<lparr>sub_image = sample_image, sub_prompt = [32, 97, 32]\<rparr>"
     and d = "str ''data:image/png;base64,iVBORw==''" and s' = ready_state and b = initial_browser]
  by (simp add: eval_defs split: prod.splits)

text \<open>
  With the prompt \<^verbatim>\<open>" a "\<close> the ledger records \<^verbatim>\<open>"a"\<close> and the service is called with
  \<^verbatim>\<open>" a "\<close>.
\<close>

theorem service_receives_trimmed_counterexample:
  "snd (handleSubmit (ready_state\<lparr>prompt := [32, 97, 32]\<rparr>))
     = Some \<lparr>sub_image = sample_image, sub_prompt = [32, 97, 32]\<rparr>
   \<and> promptHistory (fst (handleSubmit (ready_state\<lparr>prompt := [32, 97, 32]\<rparr>))) = [[97]]
   \<and> trim [32, 97, 32] = [97]
   \<and> serviceCalls (snd (fst (handleSubmit_encoded \<lparr>sub_image = sample_image, sub_prompt = [32, 97, 32]\<rparr>
        (Loaded (str ''data:image/png;base64,iVBORw==''))
        (fst (handleSubmit (ready_state\<lparr>prompt := [32, 97, 32]\<rparr>)), initial_browser))))
     = [(Some (str ''iVBORw==''), str ''image/png'', [32, 97, 32])]"
  by (simp add: eval_defs)



text \<open>
  C10. When the fetch of an example rejects, answers with a status that is not a success,
  or its body cannot be read, the handler changes one cell only: the error, set to a fixed
  message. Asset, preview, prompt, result and ledger are as before, and so is the browser.
  This holds for the handler as a whole and for its part after the fetch alone, on
  whatever state it then finds.
\<close>

theorem example_failure_atomic:
  "out = FetchRejected \<or> (\<exists>body. out = Response False body) \<or> out = Response True None \<Longrightarrow>
   handleExampleSelect url p out (s, b) = (s\<lparr>error := Some example_message\<rparr>, b)
   \<and> handleExampleSelect_fetched url p out (s, b) = (s\<lparr>error := Some example_message\<rparr>, b)"
  by (auto simp: handleExampleSelect_def handleExampleSelect_begin_def handleExampleSelect_fetched_def)

theorem example_failure_atomic_witness:
  "handleExampleSelect (str ''https://x/y.jpg'') [97] (Response False None)
     (ready_state\<lparr>prompt := [98], promptHistory := [[99]], editedResult := Some sample_result\<rparr>,
      initial_browser)
   = (ready_state\<lparr>prompt := [98], promptHistory := [[99]], editedResult := Some sample_result,
        error := Some example_message\<rparr>, initial_browser)"
  using example_failure_atomic [where out = "Response False None"
     and url = "str ''https://x/y.jpg''" and p = "[97]"
     and s = "ready_state\<lparr>prompt := [98], promptHistory := [[99]], editedResult := Some sample_result\<rparr>"
     and b = initial_browser]
  by simp

end
